theory Spec2Isabelle
  imports Main "HOL-Library.List_Lexorder" "HOL-Library.Char_ord"
begin

section \<open>Python values and the helpers of the banal library\<close>

text \<open>
  The raw configuration of a schema is a Python dictionary of arbitrary values
  (\<^verbatim>\<open>Dict[str, Any]\<close>). Dictionaries keep their insertion order, so they are
  association lists with string keys.
\<close>

datatype pyval =
    PNone
  | PBool bool
  | PInt int
  | PStr string
  | PList "pyval list"
  | PDict "(string \<times> pyval) list"

type_synonym pydict = "(string \<times> pyval) list"

text \<open>Python's truth value of an object, as \<^verbatim>\<open>if x:\<close> and \<^verbatim>\<open>x and y\<close> read it.\<close>

fun truthy :: "pyval \<Rightarrow> bool" where
  "truthy PNone = False"
| "truthy (PBool b) = b"
| "truthy (PInt n) = (n \<noteq> 0)"
| "truthy (PStr s) = (s \<noteq> [])"
| "truthy (PList xs) = (xs \<noteq> [])"
| "truthy (PDict d) = (d \<noteq> [])"

definition py_and :: "pyval \<Rightarrow> pyval \<Rightarrow> pyval" where
  "py_and a b = (if truthy a then b else a)"

text \<open>\<^verbatim>\<open>d.get(k, default)\<close>, \<^verbatim>\<open>d[k] = v\<close> and \<^verbatim>\<open>d.update(other)\<close>.\<close>

definition dict_get :: "('k \<times> 'v) list \<Rightarrow> 'k \<Rightarrow> 'v \<Rightarrow> 'v" where
  "dict_get d k dflt = (case map_of d k of None \<Rightarrow> dflt | Some v \<Rightarrow> v)"

fun dict_set :: "('k \<times> 'v) list \<Rightarrow> 'k \<Rightarrow> 'v \<Rightarrow> ('k \<times> 'v) list" where
  "dict_set [] k v = [(k, v)]"
| "dict_set ((k', v') # d) k v =
     (if k' = k then (k', v) # d else (k', v') # dict_set d k v)"

fun dict_update :: "('k \<times> 'v) list \<Rightarrow> ('k \<times> 'v) list \<Rightarrow> ('k \<times> 'v) list" where
  "dict_update d [] = d"
| "dict_update d ((k, v) # kvs) = dict_update (dict_set d k v) kvs"

text \<open>
  The helpers imported from banal (a library outside the repository):
  \<^verbatim>\<open>ensure_list\<close> turns \<^verbatim>\<open>None\<close> into the empty list and wraps a value that is
  not a list; \<^verbatim>\<open>ensure_dict\<close> turns anything that is not a mapping into the empty
  dictionary; \<^verbatim>\<open>as_bool\<close> returns a boolean as it is and the default for
  \<^verbatim>\<open>None\<close>. How \<^verbatim>\<open>as_bool\<close> reads the text of any other value is left to the
  parameter \<open>txt\<close>.
\<close>

fun ensure_list :: "pyval \<Rightarrow> pyval list" where
  "ensure_list PNone = []"
| "ensure_list (PList xs) = xs"
| "ensure_list v = [v]"


fun as_bool :: "(pyval \<Rightarrow> bool \<Rightarrow> bool) \<Rightarrow> pyval \<Rightarrow> bool \<Rightarrow> bool" where
  "as_bool txt (PBool b) dflt = b"
| "as_bool txt PNone dflt = dflt"
| "as_bool txt v dflt = txt v dflt"

section \<open>Errors\<close>

text \<open>
  The two exceptions of \<^verbatim>\<open>followthemoney.exc\<close> and the exceptions the Python
  runtime raises by itself. A message built with \<^verbatim>\<open>"...%s" % x\<close> is kept as the
  format string and its argument.
\<close>

datatype fmt_arg = ArgVal pyval | ArgProp nat

datatype error =
    InvalidModel string fmt_arg
  | InvalidData pyval pydict
  | AttributeError
  | TypeError
  | RecursionError

datatype 'a result = Return 'a | Raise error

section \<open>Objects\<close>

text \<open>
  A schema hashes and compares by its name (\<^verbatim>\<open>__hash__\<close>, \<^verbatim>\<open>__eq__\<close>), so a
  reference to a schema is its name: a set of schemas is a set of names, and
  \<^verbatim>\<open>ancestor.name\<close> is the reference itself. Properties are objects with an
  identity of their own; a reference to one is an address of the property heap.
\<close>

record property =
  prop_schema :: string
  prop_name :: string
  prop_data :: pydict
  prop_hidden :: pyval
  prop_stub :: pyval
  prop_kind :: "pyval option"

record schema =
  data :: pydict
  raw_label :: pyval
  raw_plural :: pyval
  raw_description :: pyval
  uri :: pyval
  abstract :: bool
  generated :: bool
  matchable :: bool
  featured :: "pyval list"
  required :: "pyval list"
  caption :: "pyval list"
  edge_source :: pyval
  edge_target :: pyval
  edge :: pyval
  edge_caption :: "pyval list"
  raw_edge_label :: pyval
  edge_directed :: pyval
  extends :: "string set"
  schemata :: "string set"
  names :: "string set"
  descendants :: "string set"
  properties :: "(string \<times> nat) list"

text \<open>
  The state of the program: the names the Model knows, the schema objects, the property
  objects and the next free address of the property heap.
\<close>

record state =
  registered :: "string set"
  objs :: "string \<Rightarrow> schema"
  props :: "nat \<Rightarrow> property"
  next_prop :: nat

text \<open>
  The collaborators outside the file: the text lookup \<^verbatim>\<open>gettext\<close>, the namespace
  \<^verbatim>\<open>NS\<close>, the name of the entity type of the registry, the kind-level validation
  and the serialization of a property, and the text reading of \<^verbatim>\<open>as_bool\<close>.
\<close>

record collab =
  gettext :: "pyval \<Rightarrow> pyval"
  ns :: "string \<Rightarrow> pyval"
  entity_name :: string
  prop_validate :: "property \<Rightarrow> pyval list \<Rightarrow> pyval"
  prop_to_dict :: "property \<Rightarrow> pyval"
  bool_text :: "pyval \<Rightarrow> bool \<Rightarrow> bool"

text \<open>
  Modelled from the spec: \<^verbatim>\<open>Model.get\<close>, of followthemoney.model, which is not in
  the sources. It maps a schema name to the Schema registered under it, or to nothing.
\<close>

fun model_get :: "state \<Rightarrow> pyval \<Rightarrow> string option" where
  "model_get st (PStr n) = (if n \<in> registered st then Some n else None)"
| "model_get st v = None"

text \<open>
  Modelled from the spec: the constructor of Property, of followthemoney.property, which
  is not in the sources. A property is constructed from its owning schema, its name and
  its raw configuration, and reads \<^verbatim>\<open>hidden\<close> and \<^verbatim>\<open>stub\<close> from it; its value
  kind is bound later, by its own resolution step.
\<close>

definition Property_init :: "string \<Rightarrow> string \<Rightarrow> pyval \<Rightarrow> state \<Rightarrow> nat result \<times> state" where
  "Property_init owner n cfg st =
     (case cfg of
        PDict d \<Rightarrow>
          (Return (next_prop st),
           st\<lparr>props := (props st)(next_prop st :=
                  \<lparr>prop_schema = owner, prop_name = n, prop_data = d,
                   prop_hidden = dict_get d ''hidden'' (PBool False),
                   prop_stub = dict_get d ''stub'' (PBool False),
                   prop_kind = None\<rparr>),
              next_prop := Suc (next_prop st)\<rparr>)
      | _ \<Rightarrow> (Raise AttributeError, st))"

section \<open>Schema: construction\<close>

text \<open>\<^verbatim>\<open>Schema.get\<close>: a lookup in the properties dictionary; a key that cannot be hashed raises.\<close>

fun schema_get :: "schema \<Rightarrow> pyval \<Rightarrow> nat option result" where
  "schema_get s (PStr k) = Return (map_of (properties s) k)"
| "schema_get s (PList xs) = Raise TypeError"
| "schema_get s (PDict d) = Raise TypeError"
| "schema_get s v = Return None"

definition label :: "collab \<Rightarrow> schema \<Rightarrow> pyval" where
  "label E s = gettext E (raw_label s)"

definition plural :: "collab \<Rightarrow> schema \<Rightarrow> pyval" where
  "plural E s = gettext E (raw_plural s)"

definition description :: "collab \<Rightarrow> schema \<Rightarrow> pyval" where
  "description E s = gettext E (raw_description s)"

definition edge_label :: "collab \<Rightarrow> schema \<Rightarrow> pyval" where
  "edge_label E s = gettext E (raw_edge_label s)"

definition source_prop :: "schema \<Rightarrow> nat option result" where
  "source_prop s = schema_get s (edge_source s)"

definition target_prop :: "schema \<Rightarrow> nat option result" where
  "target_prop s = schema_get s (edge_target s)"

text \<open>The loop of \<^verbatim>\<open>__init__\<close> that constructs the locally declared properties.\<close>

fun init_properties ::
  "string \<Rightarrow> pydict \<Rightarrow> (string \<times> nat) list \<Rightarrow> state \<Rightarrow> (string \<times> nat) list result \<times> state" where
  "init_properties owner [] acc st = (Return acc, st)"
| "init_properties owner ((n, cfg) # rest) acc st =
     (case Property_init owner n cfg st of
        (Raise e, st') \<Rightarrow> (Raise e, st')
      | (Return a, st') \<Rightarrow> init_properties owner rest (dict_set acc n a) st')"

text \<open>
  \<^verbatim>\<open>Schema.__init__\<close>. The object is stored under its name. Reading a key of an
  \<^verbatim>\<open>edge\<close> or \<^verbatim>\<open>properties\<close> entry that is not a dictionary raises.
\<close>

definition Schema_init :: "collab \<Rightarrow> string \<Rightarrow> pydict \<Rightarrow> state \<Rightarrow> unit result \<times> state" where
  "Schema_init E name d st =
     (let lbl = dict_get d ''label'' (PStr name) in
      case dict_get d ''edge'' (PDict []) of
        PDict e \<Rightarrow>
          (case dict_get d ''properties'' (PDict []) of
             PDict ps \<Rightarrow>
               (case init_properties name ps [] st of
                  (Raise err, st') \<Rightarrow> (Raise err, st')
                | (Return pm, st') \<Rightarrow>
                    (Return (),
                     st'\<lparr>objs := (objs st')(name :=
                       \<lparr>data = d,
                        raw_label = lbl,
                        raw_plural = dict_get d ''plural'' (gettext E lbl),
                        raw_description = dict_get d ''description'' PNone,
                        uri = dict_get d ''rdf'' (ns E name),
                        abstract = as_bool (bool_text E) (dict_get d ''abstract'' PNone) False,
                        generated = as_bool (bool_text E) (dict_get d ''generated'' PNone) False,
                        matchable = as_bool (bool_text E) (dict_get d ''matchable'' PNone) True,
                        featured = ensure_list (dict_get d ''featured'' PNone),
                        required = ensure_list (dict_get d ''required'' PNone),
                        caption = ensure_list (dict_get d ''caption'' PNone),
                        edge_source = dict_get e ''source'' PNone,
                        edge_target = dict_get e ''target'' PNone,
                        edge = py_and (dict_get e ''source'' PNone) (dict_get e ''target'' PNone),
                        edge_caption = ensure_list (dict_get e ''caption'' PNone),
                        raw_edge_label = dict_get e ''label'' lbl,
                        edge_directed = dict_get e ''directed'' (PBool True),
                        extends = {},
                        schemata = {name},
                        names = {name},
                        descendants = {},
                        properties = pm\<rparr>)\<rparr>))
           | _ \<Rightarrow> (Raise AttributeError, st))
      | _ \<Rightarrow> (Raise AttributeError, st))"

section \<open>Reverse-link synthesis\<close>

text \<open>
  The first argument of the functions below is the number of call frames the Python
  stack still has room for: a call that finds none raises \<^verbatim>\<open>RecursionError\<close>, as the
  interpreter does at its recursion limit.

  \<open>prop_generate\<close> is modelled from the spec: the resolution step of Property, of
  followthemoney.property, which is not in the sources. It binds the value kind of the
  property and, for an entity-referencing property with declared reverse metadata,
  triggers the creation of the paired reverse property on the referenced schema; where
  the Model knows no such schema there is nothing to create.

  \<open>add_reverse\<close> is \<^verbatim>\<open>Schema._add_reverse\<close>. It changes the dictionary \<^verbatim>\<open>data\<close>
  in place, so the model returns the dictionary as the call leaves it, and the caller
  stores it back. The properties dictionary is keyed by \<^verbatim>\<open>str\<close>; a name that is no
  string is refused with \<^verbatim>\<open>TypeError\<close>.
\<close>

fun prop_generate :: "collab \<Rightarrow> nat \<Rightarrow> nat \<Rightarrow> state \<Rightarrow> unit result \<times> state"
and add_reverse ::
  "collab \<Rightarrow> nat \<Rightarrow> string \<Rightarrow> pyval \<Rightarrow> nat \<Rightarrow> state \<Rightarrow> nat result \<times> pyval \<times> state" where
  "prop_generate E 0 a st = (Raise RecursionError, st)"
| "prop_generate E (Suc d) a st =
     (let p = props st a;
          ty = dict_get (prop_data p) ''type'' PNone;
          rev = dict_get (prop_data p) ''reverse'' PNone;
          st1 = st\<lparr>props := (props st)(a := p\<lparr>prop_kind := Some ty\<rparr>)\<rparr>
      in if ty = PStr (entity_name E) \<and> rev \<noteq> PNone then
           (case model_get st1 (dict_get (prop_data p) ''range'' PNone) of
              None \<Rightarrow> (Return (), st1)
            | Some T \<Rightarrow>
                (case add_reverse E d T rev a st1 of
                   (r, rev', st2) \<Rightarrow>
                     (case r of Raise e \<Rightarrow> Raise e | Return b \<Rightarrow> Return (),
                      st2\<lparr>props := (props st2)(a := (props st2 a)
                             \<lparr>prop_data := dict_set (prop_data (props st2 a)) ''reverse'' rev'\<rparr>)\<rparr>)))
         else (Return (), st1))"
| "add_reverse E 0 T dat other st = (Raise RecursionError, dat, st)"
| "add_reverse E (Suc d) T dat other st =
     (case dat of
        PDict dd \<Rightarrow>
          (let name = dict_get dd ''name'' PNone in
           if name = PNone then
             (Raise (InvalidModel ''Unnamed reverse: %s'' (ArgProp other)), dat, st)
           else
             (case schema_get (objs st T) name of
                Raise e \<Rightarrow> (Raise e, dat, st)
              | Return (Some prop) \<Rightarrow> (Return prop, dat, st)
              | Return None \<Rightarrow>
                  (let dd1 = dict_update dd
                         [(''type'', PStr (entity_name E)),
                          (''reverse'', PDict [(''name'', PStr (prop_name (props st other)))]),
                          (''range'', PStr (prop_schema (props st other))),
                          (''stub'', PBool True)];
                       dd2 = dict_set dd1 ''hidden''
                               (dict_get dd1 ''hidden'' (prop_hidden (props st other)))
                   in case name of
                        PStr n \<Rightarrow>
                          (case Property_init T n (PDict dd2) st of
                             (Raise e, st1) \<Rightarrow> (Raise e, PDict dd2, st1)
                           | (Return prop, st1) \<Rightarrow>
                               (case prop_generate E d prop st1 of
                                  (Raise e, st2) \<Rightarrow>
                                    (Raise e, PDict (prop_data (props st2 prop)), st2)
                                | (Return u, st2) \<Rightarrow>
                                    (Return prop, PDict (prop_data (props st2 prop)),
                                     st2\<lparr>objs := (objs st2)(T := (objs st2 T)
                                        \<lparr>properties := dict_set (properties (objs st2 T)) n prop\<rparr>)\<rparr>)))
                      | _ \<Rightarrow> (Raise TypeError, PDict dd2, st))))
      | _ \<Rightarrow> (Raise AttributeError, dat, st))"

section \<open>Schema resolution\<close>

text \<open>Lines 75 to 77: a property of the parent is copied only under a name that is absent.\<close>

fun merge_properties :: "(string \<times> nat) list \<Rightarrow> (string \<times> nat) list \<Rightarrow> (string \<times> nat) list" where
  "merge_properties own [] = own"
| "merge_properties own ((n, prop) # rest) =
     (if map_of own n = None then merge_properties (dict_set own n prop) rest
      else merge_properties own rest)"

text \<open>
  Lines 75 to 83, for one resolved parent: the merge of its properties, and the union of
  its ancestors into \<^verbatim>\<open>schemata\<close> and \<^verbatim>\<open>names\<close>, each ancestor recording this schema
  as a descendant.
\<close>

definition inherit :: "string \<Rightarrow> string \<Rightarrow> state \<Rightarrow> state" where
  "inherit X P st =
     (let anc = schemata (objs st P);
          s = objs st X;
          s' = s\<lparr>properties := merge_properties (properties s) (properties (objs st P)),
                 extends := insert P (extends s),
                 schemata := schemata s \<union> anc,
                 names := names s \<union> anc\<rparr>;
          os = (objs st)(X := s')
      in st\<lparr>objs := (\<lambda>n. if n \<in> anc then (os n)\<lparr>descendants := insert X (descendants (os n))\<rparr>
                             else os n)\<rparr>)"

text \<open>Line 85 and 86: every property of the merged dictionary is resolved, in order.\<close>

fun generate_props :: "collab \<Rightarrow> nat \<Rightarrow> nat list \<Rightarrow> state \<Rightarrow> unit result \<times> state" where
  "generate_props E d [] st = (Return (), st)"
| "generate_props E d (a # as) st =
     (case prop_generate E d a st of
        (Raise e, st') \<Rightarrow> (Raise e, st')
      | (Return u, st') \<Rightarrow> generate_props E d as st')"

text \<open>Lines 88 to 98: each listed name has to resolve through \<^verbatim>\<open>get\<close>.\<close>

fun check_names :: "string \<Rightarrow> schema \<Rightarrow> pyval list \<Rightarrow> unit result" where
  "check_names fmt s [] = Return ()"
| "check_names fmt s (v # vs) =
     (case schema_get s v of
        Raise e \<Rightarrow> Raise e
      | Return None \<Rightarrow> Raise (InvalidModel fmt (ArgVal v))
      | Return (Some prop) \<Rightarrow> check_names fmt s vs)"

text \<open>Lines 100 to 107.\<close>

definition check_edge :: "schema \<Rightarrow> unit result" where
  "check_edge s =
     (if truthy (edge s) then
        (case source_prop s of
           Raise e \<Rightarrow> Raise e
         | Return None \<Rightarrow> Raise (InvalidModel ''Missing edge source: %s'' (ArgVal (edge_source s)))
         | Return (Some a) \<Rightarrow>
             (case target_prop s of
                Raise e \<Rightarrow> Raise e
              | Return None \<Rightarrow>
                  Raise (InvalidModel ''Missing edge target: %s'' (ArgVal (edge_target s)))
              | Return (Some b) \<Rightarrow> Return ()))
      else Return ())"

definition checks :: "schema \<Rightarrow> unit result" where
  "checks s =
     (case check_names ''Missing featured property: %s'' s (featured s) of
        Raise e \<Rightarrow> Raise e
      | Return u \<Rightarrow>
          (case check_names ''Missing caption property: %s'' s (caption s) of
             Raise e \<Rightarrow> Raise e
           | Return u \<Rightarrow>
               (case check_names ''Missing required property: %s'' s (required s) of
                  Raise e \<Rightarrow> Raise e
                | Return u \<Rightarrow> check_edge s)))"

text \<open>
  \<^verbatim>\<open>Schema.generate\<close>. \<open>generate_parents\<close> is its loop over the \<^verbatim>\<open>extends\<close> entry
  of the raw configuration: the parent is looked up in the Model, and the call of
  \<^verbatim>\<open>generate\<close> on what \<^verbatim>\<open>Model.get\<close> returned raises \<^verbatim>\<open>AttributeError\<close> when that
  is \<^verbatim>\<open>None\<close>.
\<close>

fun generate :: "collab \<Rightarrow> nat \<Rightarrow> string \<Rightarrow> state \<Rightarrow> unit result \<times> state"
and generate_parents :: "collab \<Rightarrow> nat \<Rightarrow> string \<Rightarrow> pyval list \<Rightarrow> state \<Rightarrow> unit result \<times> state" where
  "generate E 0 X st = (Raise RecursionError, st)"
| "generate E (Suc d) X st =
     (case generate_parents E d X (ensure_list (dict_get (data (objs st X)) ''extends'' PNone)) st of
        (Raise e, st1) \<Rightarrow> (Raise e, st1)
      | (Return u, st1) \<Rightarrow>
          (case generate_props E d (map snd (properties (objs st1 X))) st1 of
             (Raise e, st2) \<Rightarrow> (Raise e, st2)
           | (Return u, st2) \<Rightarrow> (checks (objs st2 X), st2)))"
| "generate_parents E d X [] st = (Return (), st)"
| "generate_parents E d X (v # vs) st =
     (case model_get st v of
        None \<Rightarrow> (Raise AttributeError, st)
      | Some P \<Rightarrow>
          (case generate E d P st of
             (Raise e, st1) \<Rightarrow> (Raise e, st1)
           | (Return u, st1) \<Rightarrow> generate_parents E d X vs (inherit X P st1)))"

section \<open>Reading a resolved schema\<close>

text \<open>
  \<^verbatim>\<open>Schema.matchable_schemata\<close>: a generator over a set, so what it yields is a set;
  a generator that returns at once yields nothing.
\<close>

definition matchable_schemata :: "state \<Rightarrow> string \<Rightarrow> string set" where
  "matchable_schemata st X =
     (if \<not> matchable (objs st X) then {}
      else Set.filter (\<lambda>n. matchable (objs st n))
             (schemata (objs st X) \<union> descendants (objs st X)))"



text \<open>\<^verbatim>\<open>Schema.to_dict\<close>; the last loop emits the properties this schema owns.\<close>

fun own_properties :: "collab \<Rightarrow> state \<Rightarrow> string \<Rightarrow> (string \<times> nat) list \<Rightarrow> pydict \<Rightarrow> pydict" where
  "own_properties E st X [] out = out"
| "own_properties E st X ((name, a) # rest) out =
     own_properties E st X rest
       (if prop_schema (props st a) = X then dict_set out name (prop_to_dict E (props st a))
        else out)"

definition to_dict :: "collab \<Rightarrow> state \<Rightarrow> string \<Rightarrow> pydict" where
  "to_dict E st X =
     (let s = objs st X;
          d0 = [(''label'', label E s),
                (''plural'', plural E s),
                (''schemata'', PList (map PStr (sorted_list_of_set (names s)))),
                (''extends'', PList (map PStr (sorted_list_of_set (extends s)))),
                (''properties'', PDict [])];
          d1 = (if truthy (edge_source s) \<and> truthy (edge_target s) then
                  dict_set d0 ''edge''
                    (PDict [(''source'', edge_source s),
                            (''target'', edge_target s),
                            (''caption'', PList (edge_caption s)),
                            (''label'', edge_label E s),
                            (''directed'', edge_directed s)])
                else d0);
          d2 = (if featured s \<noteq> [] then dict_set d1 ''featured'' (PList (featured s)) else d1);
          d3 = (if required s \<noteq> [] then dict_set d2 ''required'' (PList (required s)) else d2);
          d4 = (if caption s \<noteq> [] then dict_set d3 ''caption'' (PList (caption s)) else d3);
          d5 = (if truthy (description E s) then dict_set d4 ''description'' (description E s)
                else d4);
          d6 = (if abstract s then dict_set d5 ''abstract'' (PBool True) else d5);
          d7 = (if generated s then dict_set d6 ''generated'' (PBool True) else d6);
          d8 = (if matchable s then dict_set d7 ''matchable'' (PBool True) else d7)
      in dict_set d8 ''properties'' (PDict (own_properties E st X (properties s) [])))"

section \<open>The life of a schema graph\<close>

text \<open>
  Modelled from the spec: the Model, of followthemoney.model, constructs every Schema
  from its raw configuration and registers it under its name; resolution is triggered
  afterwards.
\<close>

definition model_make :: "collab \<Rightarrow> string \<Rightarrow> pydict \<Rightarrow> state \<Rightarrow> unit result \<times> state" where
  "model_make E name d st =
     (case Schema_init E name d st of
        (Raise e, st') \<Rightarrow> (Raise e, st')
      | (Return u, st') \<Rightarrow> (Return (), st'\<lparr>registered := insert name (registered st')\<rparr>))"

text \<open>
  The calls that change a schema graph, and a sequence of them run from a state; a call
  that raises leaves the changes it made before.
\<close>

datatype call =
    Construct string pydict
  | Generate nat string
  | AddReverse nat string pyval nat

fun exec_call :: "collab \<Rightarrow> state \<Rightarrow> call \<Rightarrow> state" where
  "exec_call E st (Construct name d) = snd (model_make E name d st)"
| "exec_call E st (Generate depth X) = snd (generate E depth X st)"
| "exec_call E st (AddReverse depth T dat other) = snd (snd (add_reverse E depth T dat other st))"

definition exec_calls :: "collab \<Rightarrow> call list \<Rightarrow> state \<Rightarrow> state" where
  "exec_calls E cs st = foldl (exec_call E) st cs"

section \<open>Example graphs\<close>

text \<open>Collaborators that do nothing of their own, and the state before any construction.\<close>

definition E0 :: collab where
  "E0 = \<lparr>gettext = (\<lambda>v. v), ns = (\<lambda>n. PStr (''ns:'' @ n)), entity_name = ''entity'',
         prop_validate = (\<lambda>p vs. PNone), prop_to_dict = (\<lambda>p. PDict (prop_data p)),
         bool_text = (\<lambda>v dflt. False)\<rparr>"

definition blank_schema :: schema where
  "blank_schema =
     \<lparr>data = [], raw_label = PNone, raw_plural = PNone, raw_description = PNone, uri = PNone,
      abstract = False, generated = False, matchable = False, featured = [], required = [],
      caption = [], edge_source = PNone, edge_target = PNone, edge = PNone, edge_caption = [],
      raw_edge_label = PNone, edge_directed = PNone, extends = {}, schemata = {}, names = {},
      descendants = {}, properties = []\<rparr>"

definition blank_property :: property where
  "blank_property =
     \<lparr>prop_schema = [], prop_name = [], prop_data = [], prop_hidden = PNone,
      prop_stub = PNone, prop_kind = None\<rparr>"

definition state0 :: state where
  "state0 = \<lparr>registered = {}, objs = (\<lambda>n. blank_schema), props = (\<lambda>a. blank_property),
             next_prop = 0\<rparr>"

definition graph_thing :: state where
  "graph_thing = snd (model_make E0 ''Thing'' [] state0)"

definition graph_plot :: state where
  "graph_plot = snd (model_make E0 ''Plot'' [(''matchable'', PBool False)] state0)"

text \<open>
  An edge schema with the two properties its edge names, and the same schema with the
  empty string as its edge source; each is taken after its resolution.
\<close>

definition ownership_declared :: state where
  "ownership_declared =
     snd (model_make E0 ''Ownership''
            [(''edge'', PDict [(''source'', PStr ''owner''), (''target'', PStr ''asset'')]),
             (''properties'', PDict [(''owner'', PDict []), (''asset'', PDict [])])] state0)"

definition graph_ownership :: state where
  "graph_ownership = snd (generate E0 3 ''Ownership'' ownership_declared)"

definition blank_source_declared :: state where
  "blank_source_declared =
     snd (model_make E0 ''Ownership''
            [(''edge'', PDict [(''source'', PStr []), (''target'', PStr ''asset'')]),
             (''properties'', PDict [(''asset'', PDict [])])] state0)"

definition graph_blank_source :: state where
  "graph_blank_source = snd (generate E0 3 ''Ownership'' blank_source_declared)"


definition graph_orphan :: state where
  "graph_orphan = snd (model_make E0 ''Person'' [(''extends'', PStr ''Missing'')] state0)"

section \<open>Dictionaries\<close>

lemma map_of_dict_set: "map_of (dict_set d k v) k' = (if k' = k then Some v else map_of d k')"
  by (induction d) auto


lemma map_of_merge_properties:
  "map_of (merge_properties own ps) k =
     (case map_of own k of None \<Rightarrow> map_of ps k | Some a \<Rightarrow> Some a)"
  by (induction ps arbitrary: own) (auto simp: map_of_dict_set split: option.splits)

section \<open>Matchable schemata\<close>

text \<open>
  C7: \<^verbatim>\<open>matchable_schemata\<close> yields nothing when the schema is not matchable; otherwise
  it yields exactly the members of the union of \<^verbatim>\<open>schemata\<close> and \<^verbatim>\<open>descendants\<close> whose
  own \<^verbatim>\<open>matchable\<close> flag is true.
\<close>

theorem matchable_schemata_members:
  "(\<not> matchable (objs st X) \<longrightarrow> matchable_schemata st X = {}) \<and>
   (matchable (objs st X) \<longrightarrow>
      (\<forall>n. n \<in> matchable_schemata st X \<longleftrightarrow>
           (n \<in> schemata (objs st X) \<or> n \<in> descendants (objs st X)) \<and> matchable (objs st n)))"
  by (auto simp: matchable_schemata_def)

lemma graph_thing_obj:
  "matchable (objs graph_thing ''Thing'') \<and> schemata (objs graph_thing ''Thing'') = {''Thing''}
   \<and> descendants (objs graph_thing ''Thing'') = {}"
  by (simp add: graph_thing_def model_make_def Schema_init_def state0_def E0_def dict_get_def Let_def)

lemma graph_plot_obj: "\<not> matchable (objs graph_plot ''Plot'')"
  by (simp add: graph_plot_def model_make_def Schema_init_def state0_def E0_def dict_get_def Let_def)

theorem matchable_schemata_members_witness:
  "matchable_schemata graph_plot ''Plot'' = {} \<and>
   matchable_schemata graph_thing ''Thing'' = {''Thing''}"
proof -
  have a: "matchable_schemata graph_plot ''Plot'' = {}"
    using matchable_schemata_members [of graph_plot "''Plot''"] graph_plot_obj by simp
  have "\<forall>n. n \<in> matchable_schemata graph_thing ''Thing'' \<longleftrightarrow> n = ''Thing''"
    using matchable_schemata_members [of graph_thing "''Thing''"] graph_thing_obj by auto
  then have b: "matchable_schemata graph_thing ''Thing'' = {''Thing''}" by auto
  from a b show ?thesis by simp
qed

section \<open>Construction\<close>

lemma init_properties_objs:
  "init_properties owner ps acc st = (r, st') \<Longrightarrow> objs st' = objs st \<and> registered st' = registered st"
  by (induction ps arbitrary: acc st)
     (auto simp: Property_init_def split: pyval.splits prod.splits result.splits)

lemma Schema_init_fields:
  assumes "Schema_init E name d st = (Return u, st')"
  shows "matchable (objs st' name) = as_bool (bool_text E) (dict_get d ''matchable'' PNone) True"
    and "abstract (objs st' name) = as_bool (bool_text E) (dict_get d ''abstract'' PNone) False"
    and "generated (objs st' name) = as_bool (bool_text E) (dict_get d ''generated'' PNone) False"
    and "schemata (objs st' name) = {name}"
    and "names (objs st' name) = {name}"
    and "descendants (objs st' name) = {}"
    and "extends (objs st' name) = {}"
    and "data (objs st' name) = d"
proof -
  obtain e where e: "dict_get d ''edge'' (PDict []) = PDict e"
    using assms by (auto simp: Schema_init_def Let_def split: pyval.splits)
  obtain ps where ps: "dict_get d ''properties'' (PDict []) = PDict ps"
    using assms e by (auto simp: Schema_init_def Let_def split: pyval.splits)
  obtain pm st1 where ip: "init_properties name ps [] st = (Return pm, st1)"
    using assms e ps
    by (cases "init_properties name ps [] st")
       (auto simp: Schema_init_def Let_def split: result.splits)
  have st': "objs st' name = \<lparr>data = d,
                        raw_label = dict_get d ''label'' (PStr name),
                        raw_plural = dict_get d ''plural'' (gettext E (dict_get d ''label'' (PStr name))),
                        raw_description = dict_get d ''description'' PNone,
                        uri = dict_get d ''rdf'' (ns E name),
                        abstract = as_bool (bool_text E) (dict_get d ''abstract'' PNone) False,
                        generated = as_bool (bool_text E) (dict_get d ''generated'' PNone) False,
                        matchable = as_bool (bool_text E) (dict_get d ''matchable'' PNone) True,
                        featured = ensure_list (dict_get d ''featured'' PNone),
                        required = ensure_list (dict_get d ''required'' PNone),
                        caption = ensure_list (dict_get d ''caption'' PNone),
                        edge_source = dict_get e ''source'' PNone,
                        edge_target = dict_get e ''target'' PNone,
                        edge = py_and (dict_get e ''source'' PNone) (dict_get e ''target'' PNone),
                        edge_caption = ensure_list (dict_get e ''caption'' PNone),
                        raw_edge_label = dict_get e ''label'' (dict_get d ''label'' (PStr name)),
                        edge_directed = dict_get e ''directed'' (PBool True),
                        extends = {},
                        schemata = {name},
                        names = {name},
                        descendants = {},
                        properties = pm\<rparr>"
    using assms e ps ip by (auto simp: Schema_init_def Let_def)
  show "matchable (objs st' name) = as_bool (bool_text E) (dict_get d ''matchable'' PNone) True"
    and "abstract (objs st' name) = as_bool (bool_text E) (dict_get d ''abstract'' PNone) False"
    and "generated (objs st' name) = as_bool (bool_text E) (dict_get d ''generated'' PNone) False"
    and "schemata (objs st' name) = {name}"
    and "names (objs st' name) = {name}"
    and "descendants (objs st' name) = {}"
    and "extends (objs st' name) = {}"
    and "data (objs st' name) = d"
    by (simp_all add: st')
qed

section \<open>Serialization\<close>


lemma map_of_if_dict_set:
  "map_of (if c then dict_set d k v else d) k' = (if c \<and> k' = k then Some v else map_of d k')"
  by (simp add: map_of_dict_set)

lemma to_dict_featured:
  "map_of (to_dict E st X) ''featured'' =
     (if featured (objs st X) \<noteq> [] then Some (PList (featured (objs st X))) else None)"
  unfolding to_dict_def Let_def map_of_dict_set map_of_if_dict_set
  by simp

lemma to_dict_edge:
  "map_of (to_dict E st X) ''edge'' =
     (if truthy (edge_source (objs st X)) \<and> truthy (edge_target (objs st X)) then
        Some (PDict [(''source'', edge_source (objs st X)),
                     (''target'', edge_target (objs st X)),
                     (''caption'', PList (edge_caption (objs st X))),
                     (''label'', edge_label E (objs st X)),
                     (''directed'', edge_directed (objs st X))])
      else None)"
  unfolding to_dict_def Let_def map_of_dict_set map_of_if_dict_set
  by simp

lemma to_dict_matchable:
  "map_of (to_dict E st X) ''matchable'' =
     (if matchable (objs st X) then Some (PBool True) else None)"
  unfolding to_dict_def Let_def map_of_dict_set map_of_if_dict_set
  by simp

text \<open>
  C8: \<^verbatim>\<open>to_dict\<close> has no key \<^verbatim>\<open>featured\<close> when the featured list is empty (and
  holds the list otherwise). The edge source and target are set when they are true in
  Python's sense, which is what line 206 tests: \<^verbatim>\<open>None\<close> and the empty string are
  both unset. There is no key \<^verbatim>\<open>edge\<close> when the source or the target is unset, and
  when both are set the edge block is there, with its five entries.
\<close>

theorem to_dict_sparse:
  "(featured (objs st X) = [] \<longrightarrow> map_of (to_dict E st X) ''featured'' = None) \<and>
   (featured (objs st X) \<noteq> [] \<longrightarrow>
      map_of (to_dict E st X) ''featured'' = Some (PList (featured (objs st X)))) \<and>
   (\<not> truthy (edge_source (objs st X)) \<or> \<not> truthy (edge_target (objs st X)) \<longrightarrow>
      map_of (to_dict E st X) ''edge'' = None) \<and>
   (edge_source (objs st X) = PNone \<or> edge_target (objs st X) = PNone \<longrightarrow>
      map_of (to_dict E st X) ''edge'' = None) \<and>
   (truthy (edge_source (objs st X)) \<and> truthy (edge_target (objs st X)) \<longrightarrow>
      map_of (to_dict E st X) ''edge'' =
        Some (PDict [(''source'', edge_source (objs st X)),
                     (''target'', edge_target (objs st X)),
                     (''caption'', PList (edge_caption (objs st X))),
                     (''label'', edge_label E (objs st X)),
                     (''directed'', edge_directed (objs st X))]))"
  by (auto simp: to_dict_featured to_dict_edge)

text \<open>
  C9: a schema constructed from a raw configuration without the key \<^verbatim>\<open>matchable\<close> is
  matchable, its \<^verbatim>\<open>to_dict\<close> holds \<^verbatim>\<open>'matchable': True\<close>, and it is among its own
  matchable schemata; \<^verbatim>\<open>abstract\<close> and \<^verbatim>\<open>generated\<close> default to false.
\<close>

theorem matchable_default:
  assumes "map_of d ''matchable'' = None"
    and "Schema_init E name d st = (Return (), st')"
  shows "matchable (objs st' name) \<and>
         map_of (to_dict E st' name) ''matchable'' = Some (PBool True) \<and>
         name \<in> matchable_schemata st' name \<and>
         (map_of d ''abstract'' = None \<longrightarrow> \<not> abstract (objs st' name)) \<and>
         (map_of d ''generated'' = None \<longrightarrow> \<not> generated (objs st' name))"
proof -
  have m: "matchable (objs st' name)"
    using assms by (simp add: Schema_init_fields(1) dict_get_def)
  have t: "map_of (to_dict E st' name) ''matchable'' = Some (PBool True)"
    using m by (simp add: to_dict_matchable)
  have s: "name \<in> matchable_schemata st' name"
    using m Schema_init_fields(4)[OF assms(2)] by (simp add: matchable_schemata_def)
  have a: "map_of d ''abstract'' = None \<longrightarrow> \<not> abstract (objs st' name)"
    using assms(2) by (simp add: Schema_init_fields(2) dict_get_def)
  have g: "map_of d ''generated'' = None \<longrightarrow> \<not> generated (objs st' name)"
    using assms(2) by (simp add: Schema_init_fields(3) dict_get_def)
  from m t s a g show ?thesis by blast
qed


lemma graph_ownership_resolves:
  "fst (generate E0 3 ''Ownership'' ownership_declared) = Return ()"
  by code_simp

lemma graph_blank_source_resolves:
  "fst (generate E0 3 ''Ownership'' blank_source_declared) = Return ()"
  by code_simp

lemma graph_ownership_obj:
  "edge_source (objs graph_ownership ''Ownership'') = PStr ''owner'' \<and>
   edge_target (objs graph_ownership ''Ownership'') = PStr ''asset'' \<and>
   edge_caption (objs graph_ownership ''Ownership'') = [] \<and>
   raw_edge_label (objs graph_ownership ''Ownership'') = PStr ''Ownership'' \<and>
   edge_directed (objs graph_ownership ''Ownership'') = PBool True \<and>
   featured (objs graph_ownership ''Ownership'') = []"
  by code_simp

lemma graph_blank_source_obj:
  "edge_source (objs graph_blank_source ''Ownership'') = PStr [] \<and>
   edge_target (objs graph_blank_source ''Ownership'') = PStr ''asset''"
  by code_simp

lemma graph_thing_obj2:
  "featured (objs graph_thing ''Thing'') = [] \<and> edge_source (objs graph_thing ''Thing'') = PNone"
  by (simp add: graph_thing_def model_make_def Schema_init_def state0_def E0_def dict_get_def Let_def)

theorem to_dict_sparse_witness:
  "map_of (to_dict E0 graph_thing ''Thing'') ''featured'' = None \<and>
   map_of (to_dict E0 graph_thing ''Thing'') ''edge'' = None \<and>
   generate E0 3 ''Ownership'' ownership_declared = (Return (), graph_ownership) \<and>
   map_of (to_dict E0 graph_ownership ''Ownership'') ''featured'' = None \<and>
   map_of (to_dict E0 graph_ownership ''Ownership'') ''edge'' =
     Some (PDict [(''source'', PStr ''owner''), (''target'', PStr ''asset''),
                  (''caption'', PList []), (''label'', PStr ''Ownership''),
                  (''directed'', PBool True)]) \<and>
   generate E0 3 ''Ownership'' blank_source_declared = (Return (), graph_blank_source) \<and>
   edge_source (objs graph_blank_source ''Ownership'') = PStr [] \<and>
   map_of (to_dict E0 graph_blank_source ''Ownership'') ''edge'' = None"
proof -
  have 1: "generate E0 3 ''Ownership'' ownership_declared = (Return (), graph_ownership)"
    using graph_ownership_resolves by (simp add: graph_ownership_def prod_eq_iff)
  have 2: "generate E0 3 ''Ownership'' blank_source_declared = (Return (), graph_blank_source)"
    using graph_blank_source_resolves by (simp add: graph_blank_source_def prod_eq_iff)
  show ?thesis
    using to_dict_sparse [of graph_thing "''Thing''" E0]
          to_dict_sparse [of graph_ownership "''Ownership''" E0]
          to_dict_sparse [of graph_blank_source "''Ownership''" E0]
          graph_thing_obj2 graph_ownership_obj graph_blank_source_obj 1 2
    by (simp add: edge_label_def E0_def)
qed

lemma init_thing: "fst (Schema_init E0 ''Thing'' [] state0) = Return ()"
  by (simp add: Schema_init_def state0_def E0_def dict_get_def Let_def)

theorem matchable_default_witness:
  "matchable (objs (snd (Schema_init E0 ''Thing'' [] state0)) ''Thing'') \<and>
   map_of (to_dict E0 (snd (Schema_init E0 ''Thing'' [] state0)) ''Thing'') ''matchable''
     = Some (PBool True) \<and>
   ''Thing'' \<in> matchable_schemata (snd (Schema_init E0 ''Thing'' [] state0)) ''Thing'' \<and>
   \<not> abstract (objs (snd (Schema_init E0 ''Thing'' [] state0)) ''Thing'') \<and>
   \<not> generated (objs (snd (Schema_init E0 ''Thing'' [] state0)) ''Thing'')"
proof -
  have h: "Schema_init E0 ''Thing'' [] state0 = (Return (), snd (Schema_init E0 ''Thing'' [] state0))"
    using init_thing by (metis prod.collapse)
  have m: "map_of ([] :: pydict) ''matchable'' = None" by simp
  show ?thesis using matchable_default [OF m h] by simp
qed

section \<open>An unknown parent\<close>

lemma generate_unknown_parent:
  assumes "ensure_list (dict_get (data (objs st X)) ''extends'' PNone) = v # vs"
    and "model_get st v = None"
  shows "generate E (Suc d) X st = (Raise AttributeError, st)"
  using assms by simp

lemma graph_orphan_obj:
  "data (objs graph_orphan ''Person'') = [(''extends'', PStr ''Missing'')] \<and>
   registered graph_orphan = {''Person''}"
  by (simp add: graph_orphan_def model_make_def Schema_init_def state0_def E0_def dict_get_def Let_def)

text \<open>
  C3: a schema whose \<^verbatim>\<open>extends\<close> entry names a schema the Model does not know. The claim
  asks for the model-definition error; the call of \<^verbatim>\<open>generate\<close> on the \<^verbatim>\<open>None\<close> that
  \<^verbatim>\<open>Model.get\<close> returned raises \<^verbatim>\<open>AttributeError\<close> instead.
\<close>

theorem unknown_parent_attribute_error:
  "generate E0 (Suc 999) ''Person'' graph_orphan = (Raise AttributeError, graph_orphan)"
  by (rule generate_unknown_parent [where v = "PStr ''Missing''" and vs = "[]"])
     (simp_all add: graph_orphan_obj dict_get_def)

section \<open>Validation\<close>






end
